theory Spec2Isabelle
  imports Main
begin

section \<open>The API client of \<^verbatim>\<open>src/lib/api.ts\<close>\<close>

text \<open>
  The module is a set of request builders around the platform's \<^verbatim>\<open>fetch\<close>. The
  embedding keeps its three layers: the constant \<^verbatim>\<open>BASE\<close>, the response unwrapper
  \<^verbatim>\<open>j\<close>, and the eight methods of the object \<^verbatim>\<open>api\<close>. What the platform provides
  (\<^verbatim>\<open>String.prototype.replace\<close> with the one regular expression used, the \<^verbatim>\<open>||\<close>
  operator, number-to-string conversion in template literals, \<^verbatim>\<open>JSON.stringify\<close>,
  \<^verbatim>\<open>fetch\<close>) is modelled next to the place that uses it.

  Strings are \<^typ>\<open>string\<close>; the only characters the code inspects are ASCII.
  A rejected promise is a value \<open>Inl e\<close>, a fulfilled one \<open>Inr v\<close>.
\<close>

subsection \<open>JavaScript values and errors\<close>

text \<open>
  Plain data as \<^verbatim>\<open>JSON.parse\<close> produces it and as the payloads of the methods carry it.
  An object is the list of its own enumerable properties in enumeration order.
  \<open>JUndefined\<close> is there because a property may hold \<^verbatim>\<open>undefined\<close>. Numbers are
  the integral ones.
\<close>

datatype jsval =
    JUndefined
  | JNull
  | JBool bool
  | JNum int
  | JStr string
  | JArr "jsval list"
  | JObj "(string \<times> jsval) list"

text \<open>
  \<open>Error m\<close> is \<^verbatim>\<open>new Error(m)\<close>, the only error the module creates itself.
  \<open>PlatformError\<close> stands for whatever the platform rejects with: a network failure of
  \<^verbatim>\<open>fetch\<close>, a parse failure of \<^verbatim>\<open>res.json()\<close>, a read failure of \<^verbatim>\<open>res.text()\<close>.
\<close>

datatype js_error = Error string | PlatformError string

subsection \<open>Platform operations on strings\<close>

text \<open>
  \<^verbatim>\<open>a || b\<close> where \<^verbatim>\<open>a\<close> is a string or \<^verbatim>\<open>undefined\<close>: both \<^verbatim>\<open>undefined\<close> and the
  empty string are falsy.
\<close>

definition or_string :: "string option \<Rightarrow> string \<Rightarrow> string" where
  "or_string a b = (case a of None \<Rightarrow> b | Some s \<Rightarrow> if s = [] then b else s)"

text \<open>
  \<^verbatim>\<open>s.replace(/\/+$/, "")\<close>. The expression has no \<^verbatim>\<open>g\<close> and no \<^verbatim>\<open>m\<close> flag, so the
  leftmost match is replaced and \<^verbatim>\<open>$\<close> is the end of the input: the search walks
  the start positions from the left and succeeds at the first one from which a non-empty
  run of slashes reaches the end.
\<close>

fun replace_trailing_slashes :: "string \<Rightarrow> string" where
  "replace_trailing_slashes [] = []"
| "replace_trailing_slashes (c # cs) =
     (if c = CHR ''/'' \<and> list_all (\<lambda>d. d = CHR ''/'') cs then []
      else c # replace_trailing_slashes cs)"

text \<open>
  A number inside a template literal is converted by \<^verbatim>\<open>Number::toString\<close>. For a
  safe integer (magnitude below \<open>2 ^ 53\<close>) that is its decimal numeral, with a minus
  sign when negative, and this is what \<open>ToString\<close> computes. Beyond that range a
  JavaScript number is a rounded double, printed with the fewest digits that identify it
  and, from \<open>10 ^ 21\<close> on, in exponent notation; \<open>ToString\<close> does not follow it
  there. A property that states how an id is rendered therefore bounds the id by
  \<open>2 ^ 53\<close> or evaluates it at a literal.
\<close>

fun digits :: "nat \<Rightarrow> string" where
  "digits n =
     (if n < 10 then [''0123456789'' ! n]
      else digits (n div 10) @ [''0123456789'' ! (n mod 10)])"

declare digits.simps [simp del]

definition ToString :: "int \<Rightarrow> string" where
  "ToString i = (if i < 0 then CHR ''-'' # digits (nat (- i)) else digits (nat i))"

subsection \<open>\<^verbatim>\<open>JSON.stringify\<close>\<close>

text \<open>
  The serialisation of ECMA-262 (\<^verbatim>\<open>SerializeJSONProperty\<close>) on plain data, without
  indentation: a property whose value is \<^verbatim>\<open>undefined\<close> is left out of an object, an
  \<^verbatim>\<open>undefined\<close> array element is written \<^verbatim>\<open>null\<close>, and \<^verbatim>\<open>JSON.stringify(undefined)\<close>
  is \<^verbatim>\<open>undefined\<close> (here \<open>None\<close>).
\<close>

definition hex_digit :: "nat \<Rightarrow> char" where
  "hex_digit n = ''0123456789abcdef'' ! (n mod 16)"

definition quote_char :: "char \<Rightarrow> string" where
  "quote_char c =
     (if c = CHR 0x08 then [CHR 0x5C, CHR ''b'']
      else if c = CHR 0x09 then [CHR 0x5C, CHR ''t'']
      else if c = CHR 0x0A then [CHR 0x5C, CHR ''n'']
      else if c = CHR 0x0C then [CHR 0x5C, CHR ''f'']
      else if c = CHR 0x0D then [CHR 0x5C, CHR ''r'']
      else if c = CHR 0x22 then [CHR 0x5C, CHR 0x22]
      else if c = CHR 0x5C then [CHR 0x5C, CHR 0x5C]
      else if (of_char c :: nat) < 32 then
        [CHR 0x5C, CHR ''u'', CHR ''0'', CHR ''0'',
         hex_digit (of_char c div 16), hex_digit (of_char c)]
      else [c])"

definition QuoteJSONString :: "string \<Rightarrow> string" where
  "QuoteJSONString s = CHR 0x22 # concat (map quote_char s) @ [CHR 0x22]"

fun join_comma :: "string list \<Rightarrow> string" where
  "join_comma [] = []"
| "join_comma [s] = s"
| "join_comma (s # t # ts) = s @ CHR '','' # join_comma (t # ts)"

fun SerializeJSONProperty :: "jsval \<Rightarrow> string option"
  and SerializeJSONArray :: "jsval list \<Rightarrow> string list"
  and SerializeJSONObject :: "(string \<times> jsval) list \<Rightarrow> string list"
where
  "SerializeJSONProperty JUndefined = None"
| "SerializeJSONProperty JNull = Some ''null''"
| "SerializeJSONProperty (JBool b) = Some (if b then ''true'' else ''false'')"
| "SerializeJSONProperty (JNum i) = Some (ToString i)"
| "SerializeJSONProperty (JStr s) = Some (QuoteJSONString s)"
| "SerializeJSONProperty (JArr xs) =
     Some (CHR ''['' # join_comma (SerializeJSONArray xs) @ '']'')"
| "SerializeJSONProperty (JObj ps) =
     Some (CHR ''{'' # join_comma (SerializeJSONObject ps) @ ''}'')"
| "SerializeJSONArray [] = []"
| "SerializeJSONArray (x # xs) =
     (case SerializeJSONProperty x of None \<Rightarrow> ''null'' | Some s \<Rightarrow> s)
       # SerializeJSONArray xs"
| "SerializeJSONObject [] = []"
| "SerializeJSONObject ((k, v) # ps) =
     (case SerializeJSONProperty v of
        None \<Rightarrow> SerializeJSONObject ps
      | Some s \<Rightarrow> (QuoteJSONString k @ CHR '':'' # s) # SerializeJSONObject ps)"

definition JSON_stringify :: "jsval \<Rightarrow> string option" where
  "JSON_stringify v = SerializeJSONProperty v"

subsection \<open>Requests, responses and \<^verbatim>\<open>fetch\<close>\<close>

text \<open>
  The second argument of \<^verbatim>\<open>fetch\<close>, with the four options the module ever sets; an
  option that is not written is \<open>None\<close>. A request is the pair of arguments passed to
  \<^verbatim>\<open>fetch\<close>; a call without a second argument has \<open>None\<close> there.
\<close>

record request_init =
  http_method :: "string option"
  headers :: "(string \<times> string) list option"
  body :: "string option"
  cache :: "string option"

definition no_init :: request_init where
  "no_init = \<lparr>http_method = None, headers = None, body = None, cache = None\<rparr>"

type_synonym request = "string \<times> request_init option"

text \<open>
  What the module reads of a \<^verbatim>\<open>Response\<close>: the flag \<^verbatim>\<open>ok\<close> (the platform sets it
  exactly for a status in the success range), the status code, and the outcomes of the
  two body readers \<^verbatim>\<open>text()\<close> and \<^verbatim>\<open>json()\<close>.
\<close>

record response =
  ok :: bool
  status :: nat
  text_result :: "js_error + string"
  json_result :: "js_error + jsval"

text \<open>
  The remote side answers a request, possibly depending on the requests issued before;
  it may also fail to answer (\<^verbatim>\<open>fetch\<close> rejects). \<open>fetch\<close> appends the
  request to the log of issued requests.
\<close>

type_synonym network = "request list \<Rightarrow> request \<Rightarrow> js_error + response"

definition fetch ::
  "network \<Rightarrow> string \<Rightarrow> request_init option \<Rightarrow> request list
     \<Rightarrow> (js_error + response) \<times> request list" where
  "fetch net url init log = (net log (url, init), log @ [(url, init)])"

text \<open>The method and the cache mode a request has when the option is not given.\<close>

definition request_method :: "request \<Rightarrow> string" where
  "request_method r =
     (case snd r of None \<Rightarrow> ''GET''
      | Some i \<Rightarrow> (case http_method i of None \<Rightarrow> ''GET'' | Some m \<Rightarrow> m))"

definition request_cache :: "request \<Rightarrow> string" where
  "request_cache r =
     (case snd r of None \<Rightarrow> ''default''
      | Some i \<Rightarrow> (case cache i of None \<Rightarrow> ''default'' | Some m \<Rightarrow> m))"

definition request_body :: "request \<Rightarrow> string option" where
  "request_body r = (case snd r of None \<Rightarrow> None | Some i \<Rightarrow> body i)"

definition request_headers :: "request \<Rightarrow> (string \<times> string) list" where
  "request_headers r =
     (case snd r of None \<Rightarrow> []
      | Some i \<Rightarrow> (case headers i of None \<Rightarrow> [] | Some h \<Rightarrow> h))"

subsection \<open>The module\<close>

text \<open>
  \<^verbatim>\<open>const BASE = process.env.NEXT_PUBLIC_API_BASE?.replace(/\/+$/, "") || "";\<close>
  The argument is the environment's value, \<open>None\<close> when the variable is unset.
\<close>

definition BASE :: "string option \<Rightarrow> string" where
  "BASE env = or_string (map_option replace_trailing_slashes env) []"

text \<open>
  \<^verbatim>\<open>async function j<T>(res: Response): Promise<T>\<close>. The \<^verbatim>\<open>catch\<close> turns a failed
  read of the text into the empty string.
\<close>

definition j :: "response \<Rightarrow> js_error + jsval" where
  "j res =
     (if \<not> ok res then
        (let msg = (case text_result res of Inl _ \<Rightarrow> [] | Inr t \<Rightarrow> t)
         in Inl (Error (or_string (Some msg) (''HTTP '' @ ToString (int (status res))))))
      else json_result res)"

text \<open>
  \<^verbatim>\<open>return j(await fetch(...))\<close>: a rejection of \<^verbatim>\<open>fetch\<close> leaves the method at the
  \<^verbatim>\<open>await\<close>; otherwise the response goes through \<open>j\<close>.
\<close>

definition j_await ::
  "(js_error + response) \<times> request list \<Rightarrow> (js_error + jsval) \<times> request list" where
  "j_await r = (case fst r of Inl e \<Rightarrow> (Inl e, snd r) | Inr res \<Rightarrow> (j res, snd r))"

definition json_headers :: "(string \<times> string) list" where
  "json_headers = [(''Content-Type'', ''application/json'')]"

definition listProspects ::
  "string option \<Rightarrow> network \<Rightarrow> request list \<Rightarrow> (js_error + jsval) \<times> request list" where
  "listProspects env net log =
     j_await (fetch net (BASE env @ ''/prospects'')
       (Some (no_init\<lparr>cache := Some ''no-store''\<rparr>)) log)"

definition createProspect ::
  "string option \<Rightarrow> network \<Rightarrow> jsval \<Rightarrow> request list
     \<Rightarrow> (js_error + jsval) \<times> request list" where
  "createProspect env net payload log =
     j_await (fetch net (BASE env @ ''/prospects'')
       (Some (no_init\<lparr>http_method := Some ''POST'', headers := Some json_headers,
                       body := JSON_stringify payload\<rparr>)) log)"

definition generateDeck ::
  "string option \<Rightarrow> network \<Rightarrow> int \<Rightarrow> request list
     \<Rightarrow> (js_error + jsval) \<times> request list" where
  "generateDeck env net prospectId log =
     j_await (fetch net (BASE env @ ''/decks/'' @ ToString prospectId @ ''/generate'')
       (Some (no_init\<lparr>http_method := Some ''POST''\<rparr>)) log)"

definition renderDeck ::
  "string option \<Rightarrow> network \<Rightarrow> int \<Rightarrow> request list
     \<Rightarrow> (js_error + jsval) \<times> request list" where
  "renderDeck env net deckId log =
     j_await (fetch net (BASE env @ ''/decks/'' @ ToString deckId @ ''/render'')
       (Some (no_init\<lparr>http_method := Some ''POST''\<rparr>)) log)"

definition updateDeck ::
  "string option \<Rightarrow> network \<Rightarrow> int \<Rightarrow> jsval \<Rightarrow> request list
     \<Rightarrow> (js_error + jsval) \<times> request list" where
  "updateDeck env net deckId payload log =
     j_await (fetch net (BASE env @ ''/decks/'' @ ToString deckId)
       (Some (no_init\<lparr>http_method := Some ''PATCH'', headers := Some json_headers,
                       body := JSON_stringify payload\<rparr>)) log)"

definition generateEmails ::
  "string option \<Rightarrow> network \<Rightarrow> int \<Rightarrow> request list
     \<Rightarrow> (js_error + jsval) \<times> request list" where
  "generateEmails env net prospectId log =
     j_await (fetch net (BASE env @ ''/emails/'' @ ToString prospectId @ ''/generate'')
       (Some (no_init\<lparr>http_method := Some ''POST''\<rparr>)) log)"

definition listEmails ::
  "string option \<Rightarrow> network \<Rightarrow> int \<Rightarrow> request list
     \<Rightarrow> (js_error + jsval) \<times> request list" where
  "listEmails env net prospectId log =
     j_await (fetch net (BASE env @ ''/emails/'' @ ToString prospectId) None log)"

definition updateEmail ::
  "string option \<Rightarrow> network \<Rightarrow> int \<Rightarrow> jsval \<Rightarrow> request list
     \<Rightarrow> (js_error + jsval) \<times> request list" where
  "updateEmail env net id' payload log =
     j_await (fetch net (BASE env @ ''/emails/item/'' @ ToString id')
       (Some (no_init\<lparr>http_method := Some ''PATCH'', headers := Some json_headers,
                       body := JSON_stringify payload\<rparr>)) log)"

text \<open>
  The object \<^verbatim>\<open>api\<close>: one constructor per method with its arguments, and the
  dispatch to the method.
\<close>

datatype call =
    ListProspects
  | CreateProspect jsval
  | GenerateDeck int
  | RenderDeck int
  | UpdateDeck int jsval
  | GenerateEmails int
  | ListEmails int
  | UpdateEmail int jsval

fun api ::
  "string option \<Rightarrow> network \<Rightarrow> call \<Rightarrow> request list
     \<Rightarrow> (js_error + jsval) \<times> request list" where
  "api env net ListProspects = listProspects env net"
| "api env net (CreateProspect payload) = createProspect env net payload"
| "api env net (GenerateDeck prospectId) = generateDeck env net prospectId"
| "api env net (RenderDeck deckId) = renderDeck env net deckId"
| "api env net (UpdateDeck deckId payload) = updateDeck env net deckId payload"
| "api env net (GenerateEmails prospectId) = generateEmails env net prospectId"
| "api env net (ListEmails prospectId) = listEmails env net prospectId"
| "api env net (UpdateEmail id' payload) = updateEmail env net id' payload"

section \<open>Properties\<close>

subsection \<open>Auxiliary facts\<close>

lemmas api_defs = listProspects_def createProspect_def generateDeck_def renderDeck_def
  updateDeck_def generateEmails_def listEmails_def updateEmail_def

lemma snd_j_await_fetch [simp]:
  "snd (j_await (fetch net url init log)) = log @ [(url, init)]"
  by (simp add: j_await_def fetch_def split: sum.splits)

lemma fst_j_await_fetch [simp]:
  "fst (j_await (fetch net url init log)) =
     (case net log (url, init) of Inl e \<Rightarrow> Inl e | Inr res \<Rightarrow> j res)"
  by (simp add: j_await_def fetch_def split: sum.splits)

lemma api_issues_one:
  "\<exists>p init. snd (api env net c log) = log @ [(BASE env @ CHR ''/'' # p, init)]"
  by (cases c) (simp_all add: api_defs)

lemma BASE_Some: "BASE (Some s) = replace_trailing_slashes s"
  by (simp add: BASE_def or_string_def)

lemma BASE_None: "BASE None = []"
  by (simp add: BASE_def or_string_def)

lemma replace_empty_iff:
  "replace_trailing_slashes s = [] \<longleftrightarrow> list_all (\<lambda>d. d = CHR ''/'') s"
  by (cases s) auto

lemma all_same_replicate:
  "list_all (\<lambda>d. d = x) cs \<Longrightarrow> cs = replicate (length cs) x"
  by (induction cs) simp_all

text \<open>What \<open>replace_trailing_slashes\<close> removes is a run of slashes at the end.\<close>

lemma replace_decomp:
  "\<exists>n. s = replace_trailing_slashes s @ replicate n (CHR ''/'')"
proof (induction s)
  case Nil
  show ?case by simp
next
  case (Cons c cs)
  show ?case
  proof (cases "c = CHR ''/'' \<and> list_all (\<lambda>d. d = CHR ''/'') cs")
    case True
    then have "c # cs = replicate (Suc (length cs)) (CHR ''/'')"
      using all_same_replicate [of "CHR ''/''" cs] by simp
    moreover from True have "replace_trailing_slashes (c # cs) = []" by simp
    ultimately have
      "c # cs = replace_trailing_slashes (c # cs) @ replicate (Suc (length cs)) (CHR ''/'')"
      by (simp only: append_Nil)
    then show ?thesis ..
  next
    case False
    then have step: "replace_trailing_slashes (c # cs) = c # replace_trailing_slashes cs"
      by auto
    from Cons obtain n where "cs = replace_trailing_slashes cs @ replicate n (CHR ''/'')" ..
    then have "c # cs = (c # replace_trailing_slashes cs) @ replicate n (CHR ''/'')"
      by (metis append_Cons)
    then show ?thesis
      unfolding step by (rule exI)
  qed
qed

text \<open>What it leaves does not end in a slash.\<close>

lemma replace_no_trailing_slash:
  "replace_trailing_slashes s \<noteq> r @ [CHR ''/'']"
proof (induction s arbitrary: r)
  case Nil
  show ?case by simp
next
  case (Cons c cs)
  show ?case
  proof (cases "c = CHR ''/'' \<and> list_all (\<lambda>d. d = CHR ''/'') cs")
    case True
    then show ?thesis by simp
  next
    case False
    show ?thesis
    proof (cases r)
      case Nil
      with False show ?thesis by (auto simp: replace_empty_iff)
    next
      case (Cons a r')
      with False Cons.IH [of r'] show ?thesis by auto
    qed
  qed
qed

lemma j_failing_nonempty:
  "\<not> ok res \<Longrightarrow> \<exists>m. j res = Inl (Error m) \<and> m \<noteq> []"
  by (simp add: j_def or_string_def Let_def)

subsection \<open>Unwrapping a response\<close>

text \<open>
  C1. Whatever the method: when the response to the request it issued has \<^verbatim>\<open>ok\<close>
  false and a non-empty text body, the method rejects with \<^verbatim>\<open>new Error(text)\<close>, the
  message being exactly that text.
\<close>

theorem failing_response_text_is_message:
  assumes "snd (api env net c log) = log @ [req]"
    and "net log req = Inr res"
    and "\<not> ok res"
    and "text_result res = Inr t"
    and "t \<noteq> []"
  shows "fst (api env net c log) = Inl (Error t)"
  using assms by (cases c) (simp_all add: api_defs j_def or_string_def)

theorem failing_response_text_is_message_witness:
  "let res = \<lparr>ok = False, status = 404, text_result = Inr ''no such prospect'',
              json_result = Inl (PlatformError ''SyntaxError'')\<rparr>;
       net = (\<lambda>log req. Inr res);
       req = (''https://api.example.com/emails/3'', None)
   in snd (api (Some ''https://api.example.com/'') net (ListEmails 3) []) = [] @ [req]
      \<and> net [] req = Inr res
      \<and> \<not> ok res
      \<and> text_result res = Inr ''no such prospect''
      \<and> fst (api (Some ''https://api.example.com/'') net (ListEmails 3) [])
          = Inl (Error ''no such prospect'')"
proof -
  define res where "res = \<lparr>ok = False, status = 404, text_result = Inr ''no such prospect'',
              json_result = Inl (PlatformError ''SyntaxError'')\<rparr>"
  define net :: network where "net = (\<lambda>log req. Inr res)"
  define req :: request where "req = (''https://api.example.com/emails/3'', None)"
  have issued: "snd (api (Some ''https://api.example.com/'') net (ListEmails 3) []) = [] @ [req]"
    by (simp add: listEmails_def BASE_def or_string_def ToString_def digits.simps req_def)
  have answer: "net [] req = Inr res"
    by (simp add: net_def)
  have failing: "\<not> ok res"
    by (simp add: res_def)
  have readable: "text_result res = Inr ''no such prospect''"
    by (simp add: res_def)
  have "fst (api (Some ''https://api.example.com/'') net (ListEmails 3) [])
          = Inl (Error ''no such prospect'')"
    using failing_response_text_is_message [OF issued answer failing readable] by simp
  with issued answer failing readable show ?thesis
    unfolding res_def net_def req_def Let_def by blast
qed

text \<open>
  C2. Whatever the method: when the response has \<^verbatim>\<open>ok\<close> false and its text is empty,
  or reading the text fails (the \<^verbatim>\<open>catch\<close> puts the empty string in its place, so no
  second failure surfaces), the method rejects with the message \<^verbatim>\<open>HTTP \<close> followed by
  the status code in decimal.
\<close>

theorem failing_response_empty_text_gives_status:
  assumes "snd (api env net c log) = log @ [req]"
    and "net log req = Inr res"
    and "\<not> ok res"
    and "text_result res = Inr [] \<or> (\<exists>e. text_result res = Inl e)"
  shows "fst (api env net c log) = Inl (Error (''HTTP '' @ ToString (int (status res))))"
  using assms by (cases c) (auto simp add: api_defs j_def or_string_def)

theorem failing_response_empty_text_gives_status_witness:
  "let empty = \<lparr>ok = False, status = 500, text_result = Inr [],
                json_result = Inl (PlatformError ''SyntaxError'')\<rparr>;
       unreadable = \<lparr>ok = False, status = 503,
                     text_result = Inl (PlatformError ''body stream already read''),
                     json_result = Inl (PlatformError ''SyntaxError'')\<rparr>
   in snd (api None (\<lambda>log req. Inr empty) ListProspects [])
        = [] @ [(''/prospects'', Some (no_init\<lparr>cache := Some ''no-store''\<rparr>))]
      \<and> \<not> ok empty
      \<and> text_result empty = Inr []
      \<and> fst (api None (\<lambda>log req. Inr empty) ListProspects []) = Inl (Error ''HTTP 500'')
      \<and> snd (api None (\<lambda>log req. Inr unreadable) (GenerateDeck 12) [])
        = [] @ [(''/decks/12/generate'', Some (no_init\<lparr>http_method := Some ''POST''\<rparr>))]
      \<and> \<not> ok unreadable
      \<and> text_result unreadable = Inl (PlatformError ''body stream already read'')
      \<and> fst (api None (\<lambda>log req. Inr unreadable) (GenerateDeck 12) [])
          = Inl (Error ''HTTP 503'')"
proof -
  define empty where "empty = \<lparr>ok = False, status = 500, text_result = Inr [],
                json_result = Inl (PlatformError ''SyntaxError'')\<rparr>"
  define unreadable where "unreadable = \<lparr>ok = False, status = 503,
                     text_result = Inl (PlatformError ''body stream already read''),
                     json_result = Inl (PlatformError ''SyntaxError'')\<rparr>"
  define net1 :: network where "net1 = (\<lambda>log req. Inr empty)"
  define net2 :: network where "net2 = (\<lambda>log req. Inr unreadable)"
  define req1 :: request
    where "req1 = (''/prospects'', Some (no_init\<lparr>cache := Some ''no-store''\<rparr>))"
  define req2 :: request
    where "req2 = (''/decks/12/generate'', Some (no_init\<lparr>http_method := Some ''POST''\<rparr>))"
  have issued1: "snd (api None net1 ListProspects []) = [] @ [req1]"
    by (simp add: listProspects_def BASE_def or_string_def req1_def)
  have answer1: "net1 [] req1 = Inr empty"
    by (simp add: net1_def)
  have failing1: "\<not> ok empty"
    by (simp add: empty_def)
  have text1: "text_result empty = Inr []"
    by (simp add: empty_def)
  then have text1': "text_result empty = Inr [] \<or> (\<exists>e. text_result empty = Inl e)" ..
  have "status empty = 500"
    by (simp add: empty_def)
  then have result1: "fst (api None net1 ListProspects []) = Inl (Error ''HTTP 500'')"
    using failing_response_empty_text_gives_status [OF issued1 answer1 failing1 text1']
    by (simp add: ToString_def digits.simps)
  have issued2: "snd (api None net2 (GenerateDeck 12) []) = [] @ [req2]"
    by (simp add: generateDeck_def BASE_def or_string_def ToString_def digits.simps req2_def)
  have answer2: "net2 [] req2 = Inr unreadable"
    by (simp add: net2_def)
  have failing2: "\<not> ok unreadable"
    by (simp add: unreadable_def)
  have text2: "text_result unreadable = Inl (PlatformError ''body stream already read'')"
    by (simp add: unreadable_def)
  then have text2': "text_result unreadable = Inr [] \<or> (\<exists>e. text_result unreadable = Inl e)"
    by simp
  have "status unreadable = 503"
    by (simp add: unreadable_def)
  then have result2: "fst (api None net2 (GenerateDeck 12) []) = Inl (Error ''HTTP 503'')"
    using failing_response_empty_text_gives_status [OF issued2 answer2 failing2 text2']
    by (simp add: ToString_def digits.simps)
  from issued1 failing1 text1 result1 issued2 failing2 text2 result2 show ?thesis
    unfolding empty_def unreadable_def net1_def net2_def req1_def req2_def Let_def by blast
qed

text \<open>
  C3. Whatever the method: when the response has \<^verbatim>\<open>ok\<close> true and \<^verbatim>\<open>res.json()\<close>
  yields a value, the method returns that very value; nothing about its shape is checked,
  so this holds for every value \<open>v\<close>.
\<close>

theorem successful_response_returns_parsed_json:
  assumes "snd (api env net c log) = log @ [req]"
    and "net log req = Inr res"
    and "ok res"
    and "json_result res = Inr v"
  shows "fst (api env net c log) = Inr v"
  using assms by (cases c) (simp_all add: api_defs j_def)

theorem successful_response_returns_parsed_json_witness:
  "let v = JArr [JObj [(''id'', JNum 1), (''name'', JStr ''Acme'')], JStr ''not a prospect''];
       res = \<lparr>ok = True, status = 200, text_result = Inr [], json_result = Inr v\<rparr>;
       net = (\<lambda>log req. Inr res);
       req = (''/prospects'', Some (no_init\<lparr>cache := Some ''no-store''\<rparr>))
   in snd (api None net ListProspects []) = [] @ [req]
      \<and> net [] req = Inr res
      \<and> ok res
      \<and> json_result res = Inr v
      \<and> fst (api None net ListProspects []) = Inr v"
proof -
  define v where
    "v = JArr [JObj [(''id'', JNum 1), (''name'', JStr ''Acme'')], JStr ''not a prospect'']"
  define res where
    "res = \<lparr>ok = True, status = 200, text_result = Inr [], json_result = Inr v\<rparr>"
  define net :: network where "net = (\<lambda>log req. Inr res)"
  define req :: request
    where "req = (''/prospects'', Some (no_init\<lparr>cache := Some ''no-store''\<rparr>))"
  have issued: "snd (api None net ListProspects []) = [] @ [req]"
    by (simp add: listProspects_def BASE_def or_string_def req_def)
  have answer: "net [] req = Inr res"
    by (simp add: net_def)
  have success: "ok res"
    by (simp add: res_def)
  have parsed: "json_result res = Inr v"
    by (simp add: res_def)
  note successful_response_returns_parsed_json [OF issued answer success parsed]
  with issued answer success parsed show ?thesis
    unfolding v_def res_def net_def req_def Let_def by blast
qed

text \<open>
  C8. Whatever the method and whatever the failing response (text present, empty or
  unreadable): the method rejects with an \<^verbatim>\<open>Error\<close> whose message is not the empty
  string.
\<close>

theorem error_message_never_empty:
  assumes "snd (api env net c log) = log @ [req]"
    and "net log req = Inr res"
    and "\<not> ok res"
  shows "\<exists>m. fst (api env net c log) = Inl (Error m) \<and> m \<noteq> []"
  using assms j_failing_nonempty [of res] by (cases c) (auto simp add: api_defs)

theorem error_message_never_empty_witness:
  "let res = \<lparr>ok = False, status = 0, text_result = Inr [],
              json_result = Inl (PlatformError ''SyntaxError'')\<rparr>;
       net = (\<lambda>log req. Inr res);
       req = (''/decks/8/render'', Some (no_init\<lparr>http_method := Some ''POST''\<rparr>))
   in snd (api None net (RenderDeck 8) []) = [] @ [req]
      \<and> net [] req = Inr res
      \<and> \<not> ok res
      \<and> (\<exists>m. fst (api None net (RenderDeck 8) []) = Inl (Error m) \<and> m \<noteq> [])
      \<and> fst (api None net (RenderDeck 8) []) = Inl (Error ''HTTP 0'')"
proof -
  define res where "res = \<lparr>ok = False, status = 0, text_result = Inr [],
              json_result = Inl (PlatformError ''SyntaxError'')\<rparr>"
  define net :: network where "net = (\<lambda>log req. Inr res)"
  define req :: request
    where "req = (''/decks/8/render'', Some (no_init\<lparr>http_method := Some ''POST''\<rparr>))"
  have issued: "snd (api None net (RenderDeck 8) []) = [] @ [req]"
    by (simp add: renderDeck_def BASE_def or_string_def ToString_def digits.simps req_def)
  have answer: "net [] req = Inr res"
    by (simp add: net_def)
  have failing: "\<not> ok res"
    by (simp add: res_def)
  have fallback: "fst (api None net (RenderDeck 8) []) = Inl (Error ''HTTP 0'')"
    by (simp add: renderDeck_def net_def res_def j_def or_string_def ToString_def digits.simps)
  note error_message_never_empty [OF issued answer failing]
  with issued answer failing fallback show ?thesis
    unfolding res_def net_def req_def Let_def by blast
qed

subsection \<open>The base URL\<close>

text \<open>
  C4. \<^verbatim>\<open>BASE\<close> is computed from the environment's value alone: unset gives the empty
  string; a set value \<open>s\<close> loses a run of slashes at its end, and what remains does not
  end in a slash; \<^verbatim>\<open>https://api.example.com///\<close> becomes \<^verbatim>\<open>https://api.example.com\<close>,
  and \<^verbatim>\<open>listProspects\<close> then targets \<^verbatim>\<open>https://api.example.com/prospects\<close>. Every
  method builds its URL as the stripped \<^verbatim>\<open>BASE\<close> followed by a path that starts with a
  slash.
\<close>

theorem base_url_resolution:
  "BASE None = []
   \<and> (\<exists>n. s = BASE (Some s) @ replicate n (CHR ''/''))
   \<and> (\<nexists>r. BASE (Some s) = r @ ''/'')
   \<and> BASE (Some ''https://api.example.com///'') = ''https://api.example.com''
   \<and> snd (listProspects (Some ''https://api.example.com///'') net log)
       = log @ [(''https://api.example.com/prospects'',
                 Some (no_init\<lparr>cache := Some ''no-store''\<rparr>))]
   \<and> (\<exists>p init. snd (api env net c log) = log @ [(BASE env @ CHR ''/'' # p, init)])"
  using replace_decomp [of s] replace_no_trailing_slash [of s] api_issues_one [of env net c log]
  by (simp add: BASE_Some BASE_None listProspects_def)

theorem base_url_resolution_witness:
  "BASE None = []
   \<and> BASE (Some ''http://localhost:8000//'') = ''http://localhost:8000''
   \<and> BASE (Some ''https://api.example.com///'') = ''https://api.example.com''
   \<and> snd (listProspects (Some ''https://api.example.com///'')
             (\<lambda>log req. Inl (PlatformError ''offline'')) [])
       = [(''https://api.example.com/prospects'', Some (no_init\<lparr>cache := Some ''no-store''\<rparr>))]"
  using base_url_resolution
    [of "''http://localhost:8000//''" "\<lambda>log req. Inl (PlatformError ''offline'')" "[]"
        None ListProspects]
  by (simp add: BASE_def or_string_def)

text \<open>
  C10. A value of the environment that is set but is empty or made of slashes only gives
  the same \<^verbatim>\<open>BASE\<close> as an unset one, the empty string; every method then behaves as
  with the variable unset, and the URL it requests starts with the slash of its path.
\<close>

theorem slashes_only_base_is_relative:
  assumes "list_all (\<lambda>d. d = CHR ''/'') s"
  shows "BASE (Some s) = []
       \<and> BASE (Some s) = BASE None
       \<and> api (Some s) net c log = api None net c log
       \<and> (\<exists>p init. snd (api (Some s) net c log) = log @ [(CHR ''/'' # p, init)])"
proof -
  from assms have b: "BASE (Some s) = []"
    by (simp add: BASE_Some replace_empty_iff)
  have "api (Some s) net c log = api None net c log"
    by (cases c) (simp_all add: api_defs b BASE_None)
  moreover have "\<exists>p init. snd (api (Some s) net c log) = log @ [(CHR ''/'' # p, init)]"
    using api_issues_one [of "Some s" net c log] by (simp add: b)
  ultimately show ?thesis by (simp add: b BASE_None)
qed

theorem slashes_only_base_is_relative_witness:
  "let net = (\<lambda>log req. Inl (PlatformError ''offline''))
   in list_all (\<lambda>d. d = CHR ''/'') ''///''
      \<and> BASE (Some ''///'') = []
      \<and> api (Some ''///'') net (RenderDeck 5) [] = api None net (RenderDeck 5) []
      \<and> snd (api (Some ''///'') net (RenderDeck 5) [])
          = [(''/decks/5/render'', Some (no_init\<lparr>http_method := Some ''POST''\<rparr>))]
      \<and> list_all (\<lambda>d. d = CHR ''/'') []
      \<and> BASE (Some []) = []
      \<and> api (Some []) net ListProspects [] = api None net ListProspects []"
proof -
  define net :: network where "net = (\<lambda>log req. Inl (PlatformError ''offline''))"
  have slashes: "list_all (\<lambda>d. d = CHR ''/'') ''///''"
    by simp
  have vacuous: "list_all (\<lambda>d. d = CHR ''/'') []"
    by simp
  have issued: "snd (api (Some ''///'') net (RenderDeck 5) [])
          = [(''/decks/5/render'', Some (no_init\<lparr>http_method := Some ''POST''\<rparr>))]"
    by (simp add: renderDeck_def BASE_def or_string_def ToString_def digits.simps)
  note slashes_only_base_is_relative [of "''///''" net "RenderDeck 5" "[]", OF slashes]
    slashes_only_base_is_relative [of "[]" net ListProspects "[]", OF vacuous]
  with slashes vacuous issued show ?thesis
    unfolding net_def Let_def by blast
qed

subsection \<open>The requests\<close>

text \<open>
  C5. For every value of the environment, \<^verbatim>\<open>listProspects\<close> adds exactly one request to
  those issued: to \<^verbatim>\<open>BASE\<close> followed by \<^verbatim>\<open>/prospects\<close>, with no method option (so a
  \<^verbatim>\<open>GET\<close>), no body, and the cache mode \<^verbatim>\<open>no-store\<close>, which asks for caches to be
  bypassed.
\<close>

theorem listProspects_request:
  "snd (listProspects env net log)
     = log @ [(BASE env @ ''/prospects'', Some (no_init\<lparr>cache := Some ''no-store''\<rparr>))]
   \<and> request_method (BASE env @ ''/prospects'', Some (no_init\<lparr>cache := Some ''no-store''\<rparr>))
       = ''GET''
   \<and> request_cache (BASE env @ ''/prospects'', Some (no_init\<lparr>cache := Some ''no-store''\<rparr>))
       = ''no-store''
   \<and> request_body (BASE env @ ''/prospects'', Some (no_init\<lparr>cache := Some ''no-store''\<rparr>))
       = None"
  by (simp add: listProspects_def request_method_def request_cache_def request_body_def
        no_init_def)

theorem listProspects_request_witness:
  "snd (listProspects (Some ''https://api.example.com'')
         (\<lambda>log req. Inl (PlatformError ''offline'')) [])
     = [(''https://api.example.com/prospects'', Some (no_init\<lparr>cache := Some ''no-store''\<rparr>))]
   \<and> request_method
        (''https://api.example.com/prospects'', Some (no_init\<lparr>cache := Some ''no-store''\<rparr>))
       = ''GET''
   \<and> request_cache
        (''https://api.example.com/prospects'', Some (no_init\<lparr>cache := Some ''no-store''\<rparr>))
       = ''no-store''"
  using listProspects_request
    [of "Some ''https://api.example.com''" "\<lambda>log req. Inl (PlatformError ''offline'')" "[]"]
  by (simp add: BASE_def or_string_def)

text \<open>
  C6. \<^verbatim>\<open>updateDeck(42, {slides: []})\<close> adds exactly one request: \<^verbatim>\<open>PATCH\<close> to
  \<^verbatim>\<open>BASE\<close> followed by \<^verbatim>\<open>/decks/42\<close>, with the body \<^verbatim>\<open>{"slides":[]}\<close> and the header
  \<^verbatim>\<open>Content-Type: application/json\<close>. For every method: when the request it issues is a
  \<^verbatim>\<open>POST\<close> or a \<^verbatim>\<open>PATCH\<close> and has a body, its headers are that one header.
\<close>

theorem updateDeck_request_and_json_header:
  \<open>snd (updateDeck env net 42 (JObj [(''slides'', JArr [])]) log)
     = log @ [(BASE env @ ''/decks/42'',
               Some \<lparr>http_method = Some ''PATCH'',
                     headers = Some [(''Content-Type'', ''application/json'')],
                     body = Some ''{"slides":[]}'',
                     cache = None\<rparr>)]
   \<and> (\<forall>c req. snd (api env net c log) = log @ [req]
         \<longrightarrow> (request_method req = ''POST'' \<or> request_method req = ''PATCH'')
         \<longrightarrow> request_body req \<noteq> None
         \<longrightarrow> request_headers req = [(''Content-Type'', ''application/json'')])\<close>
proof (intro conjI allI impI)
  show \<open>snd (updateDeck env net 42 (JObj [(''slides'', JArr [])]) log)
     = log @ [(BASE env @ ''/decks/42'',
               Some \<lparr>http_method = Some ''PATCH'',
                     headers = Some [(''Content-Type'', ''application/json'')],
                     body = Some ''{"slides":[]}'',
                     cache = None\<rparr>)]\<close>
    by (simp add: updateDeck_def no_init_def json_headers_def JSON_stringify_def
          QuoteJSONString_def quote_char_def ToString_def digits.simps)
next
  fix c req
  assume "snd (api env net c log) = log @ [req]" and "request_body req \<noteq> None"
  then show "request_headers req = [(''Content-Type'', ''application/json'')]"
    by (cases c)
       (auto simp add: api_defs request_body_def request_headers_def no_init_def
          json_headers_def)
qed

theorem updateDeck_request_and_json_header_witness:
  \<open>let net = (\<lambda>log req. Inl (PlatformError ''offline''));
       req = (''/prospects'',
              Some \<lparr>http_method = Some ''POST'',
                    headers = Some [(''Content-Type'', ''application/json'')],
                    body = Some ''{"name":"Acme"}'',
                    cache = None\<rparr>)
   in snd (api None net (CreateProspect (JObj [(''name'', JStr ''Acme'')])) []) = [] @ [req]
      \<and> request_method req = ''POST''
      \<and> request_body req \<noteq> None
      \<and> request_headers req = [(''Content-Type'', ''application/json'')]\<close>
proof -
  define net :: network where "net = (\<lambda>log req. Inl (PlatformError ''offline''))"
  define req :: request where
    \<open>req = (''/prospects'',
              Some \<lparr>http_method = Some ''POST'',
                    headers = Some [(''Content-Type'', ''application/json'')],
                    body = Some ''{"name":"Acme"}'',
                    cache = None\<rparr>)\<close>
  have issued:
    "snd (api None net (CreateProspect (JObj [(''name'', JStr ''Acme'')])) []) = [] @ [req]"
    by (simp add: createProspect_def BASE_def or_string_def no_init_def json_headers_def
          JSON_stringify_def QuoteJSONString_def quote_char_def req_def)
  have post: "request_method req = ''POST''"
    by (simp add: request_method_def req_def)
  then have post_or_patch: "request_method req = ''POST'' \<or> request_method req = ''PATCH''" ..
  have carries: "request_body req \<noteq> None"
    by (simp add: request_body_def req_def)
  note updateDeck_request_and_json_header
    [of None net "[]", THEN conjunct2, rule_format, OF issued post_or_patch carries]
  with issued post carries show ?thesis
    unfolding net_def req_def Let_def by blast
qed

text \<open>
  C7. \<^verbatim>\<open>updateEmail(7, {subject: "Hi"})\<close> adds exactly one request: \<^verbatim>\<open>PATCH\<close> to
  \<^verbatim>\<open>BASE\<close> followed by \<^verbatim>\<open>/emails/item/7\<close>, with the body \<^verbatim>\<open>{"subject":"Hi"}\<close>: no
  key \<^verbatim>\<open>body\<close> appears. The same text results when the payload holds \<^verbatim>\<open>body\<close> as
  \<^verbatim>\<open>undefined\<close>.
\<close>

theorem updateEmail_request:
  \<open>snd (updateEmail env net 7 (JObj [(''subject'', JStr ''Hi'')]) log)
     = log @ [(BASE env @ ''/emails/item/7'',
               Some \<lparr>http_method = Some ''PATCH'',
                     headers = Some [(''Content-Type'', ''application/json'')],
                     body = Some ''{"subject":"Hi"}'',
                     cache = None\<rparr>)]
   \<and> JSON_stringify (JObj [(''subject'', JStr ''Hi''), (''body'', JUndefined)])
       = Some ''{"subject":"Hi"}''\<close>
  by (simp add: updateEmail_def no_init_def json_headers_def JSON_stringify_def
        QuoteJSONString_def quote_char_def ToString_def digits.simps)

theorem updateEmail_request_witness:
  \<open>snd (updateEmail None (\<lambda>log req. Inl (PlatformError ''offline'')) 7
          (JObj [(''subject'', JStr ''Hi'')]) [])
     = [(''/emails/item/7'',
         Some \<lparr>http_method = Some ''PATCH'',
               headers = Some [(''Content-Type'', ''application/json'')],
               body = Some ''{"subject":"Hi"}'',
               cache = None\<rparr>)]\<close>
  using updateEmail_request [of None "\<lambda>log req. Inl (PlatformError ''offline'')" "[]"]
  by (simp add: BASE_def or_string_def)

text \<open>
  C9. \<^verbatim>\<open>listEmails(prospectId)\<close> adds exactly one request, with no options at all,
  hence a \<^verbatim>\<open>GET\<close> with the default cache mode; for an id that is a safe integer its
  URL is \<^verbatim>\<open>BASE\<close> followed by \<^verbatim>\<open>/emails/\<close> and the id in decimal. For every method:
  the request of \<^verbatim>\<open>listProspects\<close> has the cache mode \<^verbatim>\<open>no-store\<close>, and the request
  of any other method has no cache option.
\<close>

theorem only_listProspects_bypasses_cache:
  "(\<bar>prospectId\<bar> < 2 ^ 53
      \<longrightarrow> snd (listEmails env net prospectId log)
            = log @ [(BASE env @ ''/emails/'' @ ToString prospectId, None)])
   \<and> (\<exists>path. snd (listEmails env net prospectId log)
                 = log @ [(BASE env @ ''/emails/'' @ path, None)]
          \<and> request_method (BASE env @ ''/emails/'' @ path, None) = ''GET''
          \<and> request_cache (BASE env @ ''/emails/'' @ path, None) = ''default'')
   \<and> (\<forall>c req. snd (api env net c log) = log @ [req]
         \<longrightarrow> (if c = ListProspects then request_cache req = ''no-store''
              else snd req = None \<or> (\<exists>i. snd req = Some i \<and> cache i = None)))"
proof (intro conjI allI impI)
  show "snd (listEmails env net prospectId log)
          = log @ [(BASE env @ ''/emails/'' @ ToString prospectId, None)]"
    by (simp add: listEmails_def)
next
  show "\<exists>path. snd (listEmails env net prospectId log)
                 = log @ [(BASE env @ ''/emails/'' @ path, None)]
          \<and> request_method (BASE env @ ''/emails/'' @ path, None) = ''GET''
          \<and> request_cache (BASE env @ ''/emails/'' @ path, None) = ''default''"
    by (rule exI [of _ "ToString prospectId"])
       (simp add: listEmails_def request_method_def request_cache_def)
next
  fix c req
  assume "snd (api env net c log) = log @ [req]"
  then show "if c = ListProspects then request_cache req = ''no-store''
             else snd req = None \<or> (\<exists>i. snd req = Some i \<and> cache i = None)"
    by (cases c) (auto simp add: api_defs no_init_def request_cache_def)
qed

theorem only_listProspects_bypasses_cache_witness:
  "let net = (\<lambda>log req. Inl (PlatformError ''offline''));
       req = (''/emails/9/generate'', Some (no_init\<lparr>http_method := Some ''POST''\<rparr>))
   in \<bar>9 :: int\<bar> < 2 ^ 53
      \<and> snd (listEmails None net 9 []) = [(''/emails/9'', None)]
      \<and> snd (api None net (GenerateEmails 9) []) = [] @ [req]
      \<and> cache (no_init\<lparr>http_method := Some ''POST''\<rparr>) = None
      \<and> (snd req = None \<or> (\<exists>i. snd req = Some i \<and> cache i = None))"
proof -
  define net :: network where "net = (\<lambda>log req. Inl (PlatformError ''offline''))"
  define req :: request where
    "req = (''/emails/9/generate'', Some (no_init\<lparr>http_method := Some ''POST''\<rparr>))"
  have safe: "\<bar>9 :: int\<bar> < 2 ^ 53"
    by simp
  have emails: "snd (listEmails None net 9 []) = [(''/emails/9'', None)]"
    using only_listProspects_bypasses_cache
      [of 9 None net "[]", THEN conjunct1, rule_format, OF safe]
    by (simp add: BASE_def or_string_def ToString_def digits.simps)
  have issued: "snd (api None net (GenerateEmails 9) []) = [] @ [req]"
    by (simp add: generateEmails_def BASE_def or_string_def ToString_def digits.simps req_def)
  have plain: "cache (no_init\<lparr>http_method := Some ''POST''\<rparr>) = None"
    by (simp add: no_init_def)
  have "snd req = None \<or> (\<exists>i. snd req = Some i \<and> cache i = None)"
    using only_listProspects_bypasses_cache
      [of 9 None net "[]", THEN conjunct2, THEN conjunct2, rule_format, OF issued]
    by simp
  with safe emails issued plain show ?thesis
    unfolding net_def req_def Let_def by blast
qed

end
